theory Spec2Isabelle
  imports Complex_Main
begin

section \<open>Python values, exceptions and outcomes\<close>

text \<open>
  The gateway of \<^verbatim>\<open>txtai/api/base.py\<close> (class \<^verbatim>\<open>API\<close>) handles untyped Python
  values: documents, queries, request parameters, task descriptors. They are modelled by
  one datatype. A float is identified with the real number it denotes (infinities and
  NaN are left out); a dict is an association list in insertion order with string keys;
  \<open>PMethod\<close> is a bound method of the gateway itself and \<open>PObject\<close> any other opaque
  object (a pipeline or workflow instance), named by a label.
\<close>

datatype api_method = MAdd | MIndex | MUpsert

datatype pyval =
    PNone
  | PBool bool
  | PInt int
  | PFloat real
  | PStr string
  | PTuple "pyval list"
  | PList "pyval list"
  | PDict "(string \<times> pyval) list"
  | PMethod api_method
  | PObject string

datatype pyexn =
    TypeError
  | ValueError
  | KeyError
  | IndexError
  | AttributeError
  | Failure string

text \<open>
  A call returns a value, raises, or never returns (it waits for a lock that is held).
\<close>

datatype 'a outcome = Returned 'a | Raised pyexn | Blocked

fun omap :: "('a \<Rightarrow> 'b) \<Rightarrow> 'a outcome \<Rightarrow> 'b outcome" where
  "omap f (Returned v) = Returned (f v)"
| "omap f (Raised x) = Raised x"
| "omap f Blocked = Blocked"

fun obind :: "'a outcome \<Rightarrow> ('a \<Rightarrow> 'b outcome) \<Rightarrow> 'b outcome" where
  "obind (Returned v) f = f v"
| "obind (Raised x) f = Raised x"
| "obind Blocked f = Blocked"

text \<open>
  A list comprehension whose element expression may raise: the elements are evaluated
  from left to right and the first exception abandons the whole list.
\<close>

fun omap_list :: "('a \<Rightarrow> 'b outcome) \<Rightarrow> 'a list \<Rightarrow> 'b list outcome" where
  "omap_list f [] = Returned []"
| "omap_list f (x # xs) = obind (f x) (\<lambda>y. omap ((#) y) (omap_list f xs))"

text \<open>Python's truth test (\<^verbatim>\<open>if x\<close>, \<^verbatim>\<open>not x\<close>).\<close>

fun truthy :: "pyval \<Rightarrow> bool" where
  "truthy PNone = False"
| "truthy (PBool b) = b"
| "truthy (PInt n) = (n \<noteq> 0)"
| "truthy (PFloat x) = (x \<noteq> 0)"
| "truthy (PStr s) = (s \<noteq> [])"
| "truthy (PTuple xs) = (xs \<noteq> [])"
| "truthy (PList xs) = (xs \<noteq> [])"
| "truthy (PDict kvs) = (kvs \<noteq> [])"
| "truthy (PMethod m) = True"
| "truthy (PObject n) = True"

text \<open>Iteration (\<^verbatim>\<open>for x in v\<close>): a dict yields its keys, a string its characters.\<close>

fun py_iter :: "pyval \<Rightarrow> pyval list outcome" where
  "py_iter (PList xs) = Returned xs"
| "py_iter (PTuple xs) = Returned xs"
| "py_iter (PStr s) = Returned (map (\<lambda>c. PStr [c]) s)"
| "py_iter (PDict kvs) = Returned (map (\<lambda>kv. PStr (fst kv)) kvs)"
| "py_iter v = Raised TypeError"

subsection \<open>The builtin \<^verbatim>\<open>int()\<close>\<close>

text \<open>
  \<^verbatim>\<open>int(s)\<close> on a string, base ten, for ASCII text: surrounding whitespace is
  stripped, one sign is allowed, then decimal digits, where single underscores may
  separate digits. Anything else raises \<^verbatim>\<open>ValueError\<close>.
\<close>

definition is_space :: "char \<Rightarrow> bool" where
  "is_space c = (of_char c \<in> {9, 10, 11, 12, 13, 28, 29, 30, 31, 32 :: nat})"

definition is_digit :: "char \<Rightarrow> bool" where
  "is_digit c = (48 \<le> (of_char c :: nat) \<and> (of_char c :: nat) \<le> 57)"

definition digit_val :: "char \<Rightarrow> nat" where
  "digit_val c = of_char c - 48"

definition strip :: "string \<Rightarrow> string" where
  "strip s = rev (dropWhile is_space (rev (dropWhile is_space s)))"

fun dec_body :: "nat \<Rightarrow> string \<Rightarrow> nat option" where
  "dec_body acc [] = Some acc"
| "dec_body acc [c] = (if is_digit c then Some (10 * acc + digit_val c) else None)"
| "dec_body acc (c # d # cs) =
     (if is_digit c then dec_body (10 * acc + digit_val c) (d # cs)
      else if c = CHR ''_'' \<and> is_digit d then dec_body acc (d # cs)
      else None)"

definition dec_value :: "string \<Rightarrow> nat option" where
  "dec_value s = (case s of [] \<Rightarrow> None | c # cs \<Rightarrow> if is_digit c then dec_body 0 s else None)"

definition int_of_string :: "string \<Rightarrow> int option" where
  "int_of_string s =
     (case strip s of
        [] \<Rightarrow> None
      | c # cs \<Rightarrow>
          if c = CHR ''-'' then map_option (\<lambda>n. - int n) (dec_value cs)
          else if c = CHR ''+'' then map_option int (dec_value cs)
          else map_option int (dec_value (c # cs)))"

text \<open>
  \<^verbatim>\<open>int(v)\<close>: an int is itself, a bool is 0 or 1, a float is truncated towards zero,
  a string is parsed; every other value of the model raises \<^verbatim>\<open>TypeError\<close>.
\<close>

fun py_int :: "pyval \<Rightarrow> int outcome" where
  "py_int (PInt n) = Returned n"
| "py_int (PBool b) = Returned (if b then 1 else 0)"
| "py_int (PFloat x) = Returned (if 0 \<le> x then \<lfloor>x\<rfloor> else \<lceil>x\<rceil>)"
| "py_int (PStr s) = (case int_of_string s of None \<Rightarrow> Raised ValueError | Some n \<Rightarrow> Returned n)"
| "py_int v = Raised TypeError"

section \<open>API.limit\<close>

text \<open>
  \<^verbatim>\<open>return max(1, min(250, int(limit) if limit else 10))\<close>
\<close>

definition limit :: "pyval \<Rightarrow> int outcome" where
  "limit l = omap (\<lambda>n. max 1 (min 250 n)) (if truthy l then py_int l else Returned 10)"

section \<open>The gateway state and its collaborators\<close>

text \<open>
  The fields of an \<^verbatim>\<open>API\<close> instance that the operations read and write. The
  index (\<^verbatim>\<open>Embeddings\<close>) and the cluster (\<^verbatim>\<open>Cluster\<close>) are objects of other
  modules: their states are the type parameters \<open>'e\<close> and \<open>'c\<close>, and \<open>None\<close> is
  Python's \<^verbatim>\<open>None\<close>. \<open>locked\<close> is the state of \<^verbatim>\<open>self.lock\<close>.

  Modelled from the spec: the class \<^verbatim>\<open>Documents\<close> (module \<^verbatim>\<open>embeddings\<close>), the
  document buffer. It is an ordered, append-only sequence of documents: a new buffer is
  empty, \<^verbatim>\<open>add(batch)\<close> appends the batch, \<^verbatim>\<open>len\<close> is the number of buffered
  documents, \<^verbatim>\<open>close()\<close> releases its storage. The source calls \<^verbatim>\<open>len\<close> on it,
  so its truth test is that of a sized object: an empty buffer is false.
\<close>

record ('e, 'c) api =
  config :: "string \<rightharpoonup> pyval"
  documents :: "pyval list option"
  embeddings :: "'e option"
  cluster :: "'c option"
  locked :: bool
  pipelines :: "string \<rightharpoonup> pyval"
  workflows :: "string \<rightharpoonup> pyval"

text \<open>
  The operations of the collaborators, as parameters. Each takes the collaborator's
  state and returns an outcome and the new state. \<open>call\<close> invokes a pipeline or
  workflow object on positional arguments; it may call back into the gateway, so it
  takes and returns the gateway state. \<open>create\<close> is \<^verbatim>\<open>PipelineFactory.create\<close>.
  \<open>float_conv\<close> is the builtin \<^verbatim>\<open>float()\<close> on a value that is not already a float
  (rounding and parsing are not modelled).
\<close>

record ('e, 'c) external =
  emb_search :: "'e \<Rightarrow> pyval \<Rightarrow> int \<Rightarrow> pyval outcome \<times> 'e"
  emb_batchsearch :: "'e \<Rightarrow> pyval \<Rightarrow> int \<Rightarrow> pyval outcome \<times> 'e"
  emb_count :: "'e \<Rightarrow> int outcome \<times> 'e"
  emb_scoring :: "'e \<Rightarrow> bool"
  emb_score :: "'e \<Rightarrow> pyval list option \<Rightarrow> unit outcome \<times> 'e"
  emb_index :: "'e \<Rightarrow> pyval list option \<Rightarrow> unit outcome \<times> 'e"
  emb_upsert :: "'e \<Rightarrow> pyval list option \<Rightarrow> unit outcome \<times> 'e"
  emb_save :: "'e \<Rightarrow> pyval \<Rightarrow> unit outcome \<times> 'e"
  emb_delete :: "'e \<Rightarrow> pyval \<Rightarrow> pyval outcome \<times> 'e"
  emb_similarity :: "'e \<Rightarrow> pyval \<Rightarrow> pyval \<Rightarrow> pyval outcome \<times> 'e"
  emb_batchsimilarity :: "'e \<Rightarrow> pyval \<Rightarrow> pyval \<Rightarrow> pyval outcome \<times> 'e"
  emb_transform :: "'e \<Rightarrow> pyval \<Rightarrow> pyval outcome \<times> 'e"
  emb_batchtransform :: "'e \<Rightarrow> pyval \<Rightarrow> pyval outcome \<times> 'e"
  cl_search :: "'c \<Rightarrow> pyval \<Rightarrow> int \<Rightarrow> pyval outcome \<times> 'c"
  cl_batchsearch :: "'c \<Rightarrow> pyval \<Rightarrow> int \<Rightarrow> pyval outcome \<times> 'c"
  cl_add :: "'c \<Rightarrow> pyval \<Rightarrow> unit outcome \<times> 'c"
  cl_index :: "'c \<Rightarrow> unit outcome \<times> 'c"
  cl_upsert :: "'c \<Rightarrow> unit outcome \<times> 'c"
  cl_delete :: "'c \<Rightarrow> pyval \<Rightarrow> pyval outcome \<times> 'c"
  cl_count :: "'c \<Rightarrow> int outcome \<times> 'c"
  call :: "pyval \<Rightarrow> pyval list \<Rightarrow> ('e, 'c) api \<Rightarrow> pyval outcome \<times> ('e, 'c) api"
  create :: "(string \<times> pyval) list \<Rightarrow> pyval \<Rightarrow> pyval outcome"
  float_conv :: "pyval \<Rightarrow> pyval outcome"

text \<open>Sequencing of calls that return an outcome and a state.\<close>

definition sbind :: "'a outcome \<times> 's \<Rightarrow> ('a \<Rightarrow> 's \<Rightarrow> 'b outcome \<times> 's) \<Rightarrow> 'b outcome \<times> 's" where
  "sbind m f =
     (case m of
        (Returned v, s) \<Rightarrow> f v s
      | (Raised x, s) \<Rightarrow> (Raised x, s)
      | (Blocked, s) \<Rightarrow> (Blocked, s))"

text \<open>
  A method call on \<^verbatim>\<open>self.embeddings\<close> or \<^verbatim>\<open>self.cluster\<close>: on \<^verbatim>\<open>None\<close> it
  raises \<^verbatim>\<open>AttributeError\<close>, otherwise the object's new state is stored back.
\<close>

definition on_emb :: "('e, 'c) api \<Rightarrow> ('e \<Rightarrow> 'a outcome \<times> 'e) \<Rightarrow> 'a outcome \<times> ('e, 'c) api" where
  "on_emb s f =
     (case embeddings s of
        None \<Rightarrow> (Raised AttributeError, s)
      | Some e \<Rightarrow> (case f e of (r, e') \<Rightarrow> (r, s\<lparr>embeddings := Some e'\<rparr>)))"

definition on_cluster :: "('e, 'c) api \<Rightarrow> ('c \<Rightarrow> 'a outcome \<times> 'c) \<Rightarrow> 'a outcome \<times> ('e, 'c) api" where
  "on_cluster s f =
     (case cluster s of
        None \<Rightarrow> (Raised AttributeError, s)
      | Some c \<Rightarrow> (case f c of (r, c') \<Rightarrow> (r, s\<lparr>cluster := Some c'\<rparr>)))"

text \<open>\<^verbatim>\<open>self.config.get(k)\<close> in a condition.\<close>

definition cfg_truthy :: "('e, 'c) api \<Rightarrow> string \<Rightarrow> bool" where
  "cfg_truthy s k = (case config s k of None \<Rightarrow> False | Some v \<Rightarrow> truthy v)"

text \<open>\<^verbatim>\<open>self.documents\<close> in a condition.\<close>

definition docs_truthy :: "pyval list option \<Rightarrow> bool" where
  "docs_truthy d = (case d of None \<Rightarrow> False | Some buf \<Rightarrow> buf \<noteq> [])"

text \<open>
  \<^verbatim>\<open>with self.lock:\<close> the lock is not reentrant, so the call waits for ever when the
  lock is held; otherwise the body runs with the lock held and the lock is released
  when the body returns or raises.
\<close>

definition with_lock ::
  "(('e, 'c) api \<Rightarrow> 'a outcome \<times> ('e, 'c) api) \<Rightarrow> ('e, 'c) api \<Rightarrow> 'a outcome \<times> ('e, 'c) api" where
  "with_lock body s =
     (if locked s then (Blocked, s)
      else (case body (s\<lparr>locked := True\<rparr>) of
              (Blocked, s') \<Rightarrow> (Blocked, s')
            | (r, s') \<Rightarrow> (r, s'\<lparr>locked := False\<rparr>)))"

text \<open>\<^verbatim>\<open>float(v)\<close>: a float is itself.\<close>

definition py_float :: "('e, 'c) external \<Rightarrow> pyval \<Rightarrow> pyval outcome" where
  "py_float ext v = (case v of PFloat x \<Rightarrow> Returned (PFloat x) | _ \<Rightarrow> float_conv ext v)"

section \<open>Search and result normalisation\<close>






section \<open>Count, add, index, upsert, delete\<close>

definition count :: "('e, 'c) external \<Rightarrow> ('e, 'c) api \<Rightarrow> pyval outcome \<times> ('e, 'c) api" where
  "count ext s =
     (if cluster s \<noteq> None then
        (case on_cluster s (cl_count ext) of (r, s') \<Rightarrow> (omap PInt r, s'))
      else if embeddings s \<noteq> None then
        (case on_emb s (emb_count ext) of (r, s') \<Rightarrow> (omap PInt r, s'))
      else (Returned PNone, s))"

text \<open>
  The loop of \<^verbatim>\<open>add\<close> over the input documents: \<open>index\<close> is the auto-sequence
  counter and \<open>batch\<close> the list built so far.
\<close>

fun add_loop :: "int \<Rightarrow> pyval list \<Rightarrow> pyval list \<Rightarrow> pyval list outcome" where
  "add_loop index batch [] = Returned batch"
| "add_loop index batch (PDict kvs # ds) =
     (case map_of kvs ''id'' of
        None \<Rightarrow> Raised KeyError
      | Some i \<Rightarrow> add_loop index (batch @ [PTuple [i, PDict kvs, PNone]]) ds)"
| "add_loop index batch (PStr t # ds) =
     add_loop (index + 1) (batch @ [PTuple [PInt index, PStr t, PNone]]) ds"
| "add_loop index batch (PTuple xs # ds) =
     (if length xs < 3 then
        (case xs of
           a # b # rest \<Rightarrow> add_loop index (batch @ [PTuple [a, b, PNone]]) ds
         | _ \<Rightarrow> Raised IndexError)
      else add_loop index (batch @ [PTuple xs]) ds)"
| "add_loop index batch (d # ds) = add_loop index (batch @ [d]) ds"

text \<open>The body of \<^verbatim>\<open>add\<close> under the lock.\<close>

definition add_body :: "('e, 'c) external \<Rightarrow> pyval \<Rightarrow> ('e, 'c) api \<Rightarrow> pyval outcome \<times> ('e, 'c) api" where
  "add_body ext docs s =
     sbind (count ext (if \<not> docs_truthy (documents s) then s\<lparr>documents := Some []\<rparr> else s))
       (\<lambda>cnt s'.
          case (cnt, documents s') of
            (PInt n, Some buf) \<Rightarrow>
              (case obind (py_iter docs) (add_loop (n + int (length buf)) []) of
                 Returned batch \<Rightarrow> (Returned docs, s'\<lparr>documents := Some (buf @ batch)\<rparr>)
               | Raised x \<Rightarrow> (Raised x, s')
               | Blocked \<Rightarrow> (Blocked, s'))
          | _ \<Rightarrow> (Raised TypeError, s'))"

definition add :: "('e, 'c) external \<Rightarrow> ('e, 'c) api \<Rightarrow> pyval \<Rightarrow> pyval outcome \<times> ('e, 'c) api" where
  "add ext s docs =
     (if cluster s \<noteq> None then
        (case on_cluster s (\<lambda>c. cl_add ext c docs) of (r, s') \<Rightarrow> (omap (\<lambda>u. docs) r, s'))
      else if embeddings s \<noteq> None \<and> cfg_truthy s ''writable'' then
        with_lock (add_body ext docs) s
      else (Returned docs, s))"

text \<open>
  \<^verbatim>\<open>if self.config.get("path"): self.embeddings.save(self.config["path"])\<close>
\<close>

definition save_if_path :: "('e, 'c) external \<Rightarrow> ('e, 'c) api \<Rightarrow> unit outcome \<times> ('e, 'c) api" where
  "save_if_path ext s =
     (case config s ''path'' of
        None \<Rightarrow> (Returned (), s)
      | Some p \<Rightarrow> if truthy p then on_emb s (\<lambda>e. emb_save ext e p) else (Returned (), s))"

text \<open>\<^verbatim>\<open>self.documents.close(); self.documents = None\<close>\<close>

definition reset_documents :: "('e, 'c) api \<Rightarrow> pyval outcome \<times> ('e, 'c) api" where
  "reset_documents s =
     (case documents s of
        None \<Rightarrow> (Raised AttributeError, s)
      | Some buf \<Rightarrow> (Returned PNone, s\<lparr>documents := None\<rparr>))"

definition index_body :: "('e, 'c) external \<Rightarrow> ('e, 'c) api \<Rightarrow> pyval outcome \<times> ('e, 'c) api" where
  "index_body ext s =
     sbind (case embeddings s of
              None \<Rightarrow> (Raised AttributeError, s)
            | Some e \<Rightarrow>
                if emb_scoring ext e then on_emb s (\<lambda>e. emb_score ext e (documents s))
                else (Returned (), s))
       (\<lambda>u s1. sbind (on_emb s1 (\<lambda>e. emb_index ext e (documents s1)))
          (\<lambda>u s2. sbind (save_if_path ext s2)
             (\<lambda>u s3. reset_documents s3)))"

definition index :: "('e, 'c) external \<Rightarrow> ('e, 'c) api \<Rightarrow> pyval outcome \<times> ('e, 'c) api" where
  "index ext s =
     (if cluster s \<noteq> None then
        (case on_cluster s (cl_index ext) of (r, s') \<Rightarrow> (omap (\<lambda>u. PNone) r, s'))
      else if embeddings s \<noteq> None \<and> cfg_truthy s ''writable'' \<and> docs_truthy (documents s) then
        with_lock (index_body ext) s
      else (Returned PNone, s))"

definition upsert_body :: "('e, 'c) external \<Rightarrow> ('e, 'c) api \<Rightarrow> pyval outcome \<times> ('e, 'c) api" where
  "upsert_body ext s =
     sbind (on_emb s (\<lambda>e. emb_upsert ext e (documents s)))
       (\<lambda>u s2. sbind (save_if_path ext s2)
          (\<lambda>u s3. reset_documents s3))"

definition upsert :: "('e, 'c) external \<Rightarrow> ('e, 'c) api \<Rightarrow> pyval outcome \<times> ('e, 'c) api" where
  "upsert ext s =
     (if cluster s \<noteq> None then
        (case on_cluster s (cl_upsert ext) of (r, s') \<Rightarrow> (omap (\<lambda>u. PNone) r, s'))
      else if embeddings s \<noteq> None \<and> cfg_truthy s ''writable'' \<and> docs_truthy (documents s) then
        with_lock (upsert_body ext) s
      else (Returned PNone, s))"

definition delete :: "('e, 'c) external \<Rightarrow> ('e, 'c) api \<Rightarrow> pyval \<Rightarrow> pyval outcome \<times> ('e, 'c) api" where
  "delete ext s ids =
     (if cluster s \<noteq> None then on_cluster s (\<lambda>c. cl_delete ext c ids)
      else if embeddings s \<noteq> None \<and> cfg_truthy s ''writable'' then
        with_lock (\<lambda>s'. on_emb s' (\<lambda>e. emb_delete ext e ids)) s
      else (Returned PNone, s))"

section \<open>Similarity and transform\<close>



text \<open>\<^verbatim>\<open>[float(x) for x in res]\<close>\<close>

definition float_list :: "('e, 'c) external \<Rightarrow> pyval \<Rightarrow> pyval outcome" where
  "float_list ext res = obind (py_iter res) (\<lambda>xs. omap PList (omap_list (py_float ext) xs))"




definition batchtransform ::
  "('e, 'c) external \<Rightarrow> ('e, 'c) api \<Rightarrow> pyval \<Rightarrow> pyval outcome \<times> ('e, 'c) api" where
  "batchtransform ext s texts =
     (if embeddings s \<noteq> None then
        (case py_iter texts of
           Raised x \<Rightarrow> (Raised x, s)
         | Blocked \<Rightarrow> (Blocked, s)
         | Returned ts \<Rightarrow>
             sbind (on_emb s (\<lambda>e. emb_batchtransform ext e
                      (PList (map (\<lambda>text. PTuple [PNone, text, PNone]) ts))))
               (\<lambda>res s'. (obind (py_iter res) (\<lambda>rs. omap PList (omap_list (float_list ext) rs)), s')))
      else (Returned PNone, s))"

section \<open>Pipelines and workflows\<close>

definition pipeline ::
  "('e, 'c) external \<Rightarrow> ('e, 'c) api \<Rightarrow> string \<Rightarrow> pyval \<Rightarrow> pyval outcome \<times> ('e, 'c) api" where
  "pipeline ext s name args =
     (case pipelines s name of
        Some p \<Rightarrow>
          (case py_iter args of
             Returned as \<Rightarrow> call ext p as s
           | Raised x \<Rightarrow> (Raised x, s)
           | Blocked \<Rightarrow> (Blocked, s))
      | None \<Rightarrow> (Returned PNone, s))"

text \<open>\<^verbatim>\<open>tuple(element) if isinstance(element, list) else element\<close>\<close>

definition to_tuple :: "pyval \<Rightarrow> pyval" where
  "to_tuple element = (case element of PList xs \<Rightarrow> PTuple xs | _ \<Rightarrow> element)"

definition workflow ::
  "('e, 'c) external \<Rightarrow> ('e, 'c) api \<Rightarrow> string \<Rightarrow> pyval \<Rightarrow> pyval outcome \<times> ('e, 'c) api" where
  "workflow ext s name elements =
     (case py_iter elements of
        Raised x \<Rightarrow> (Raised x, s)
      | Blocked \<Rightarrow> (Blocked, s)
      | Returned es \<Rightarrow>
          (case workflows s name of
             None \<Rightarrow> (Raised KeyError, s)
           | Some w \<Rightarrow> call ext w [PList (map to_tuple es)] s))"

section \<open>Task resolution\<close>

text \<open>
  A key of a dict must be hashable: lists and dicts are not, a tuple is when its items
  are.
\<close>

fun hashable :: "pyval \<Rightarrow> bool" where
  "hashable (PList xs) = False"
| "hashable (PDict kvs) = False"
| "hashable (PTuple xs) = (\<forall>x \<in> set xs. hashable x)"
| "hashable v = True"

text \<open>
  \<^verbatim>\<open>API.function\<close>: the registry's keys are strings, so only a string can be found
  in it; testing an unhashable value raises \<^verbatim>\<open>TypeError\<close>.
\<close>

definition api_function :: "('e, 'c) external \<Rightarrow> ('e, 'c) api \<Rightarrow> pyval \<Rightarrow> pyval outcome" where
  "api_function ext s f =
     (if \<not> hashable f then Raised TypeError
      else (case (case f of PStr name \<Rightarrow> pipelines s name | _ \<Rightarrow> None) of
              Some p \<Rightarrow> Returned p
            | None \<Rightarrow> create ext [] f))"

text \<open>\<^verbatim>\<open>task[k] = v\<close>: an existing key keeps its place, a new one goes last.\<close>

fun dict_set :: "(string \<times> pyval) list \<Rightarrow> string \<Rightarrow> pyval \<Rightarrow> (string \<times> pyval) list" where
  "dict_set [] k v = [(k, v)]"
| "dict_set ((k', v') # kvs) k v = (if k' = k then (k, v) # kvs else (k', v') # dict_set kvs k v)"

text \<open>
  The loop of \<^verbatim>\<open>resolve\<close> over the action values: \<open>actions\<close> is the list built so
  far; the task is updated in place, also when a later action raises.
\<close>

fun resolve_actions ::
  "('e, 'c) external \<Rightarrow> ('e, 'c) api \<Rightarrow> pyval list \<Rightarrow> pyval list \<Rightarrow> (string \<times> pyval) list
     \<Rightarrow> pyval list outcome \<times> (string \<times> pyval) list" where
  "resolve_actions ext s [] actions task = (Returned actions, task)"
| "resolve_actions ext s (a # vs) actions task =
     (if a = PStr ''index'' \<or> a = PStr ''upsert'' then
        resolve_actions ext s vs (actions @ [PMethod MAdd])
          (dict_set (dict_set task ''unpack'' (PBool False)) ''finalize''
             (PMethod (if a = PStr ''upsert'' then MUpsert else MIndex)))
      else
        (case api_function ext s a of
           Returned f \<Rightarrow> resolve_actions ext s vs (actions @ [f]) task
         | Raised x \<Rightarrow> (Raised x, task)
         | Blocked \<Rightarrow> (Blocked, task)))"

text \<open>
  \<^verbatim>\<open>if k in task and isinstance(task[k], str): task[k] = self.function(task[k])\<close>
\<close>

definition resolve_key ::
  "('e, 'c) external \<Rightarrow> ('e, 'c) api \<Rightarrow> string \<Rightarrow> (string \<times> pyval) list
     \<Rightarrow> unit outcome \<times> (string \<times> pyval) list" where
  "resolve_key ext s k task =
     (case map_of task k of
        Some (PStr name) \<Rightarrow>
          (case api_function ext s (PStr name) of
             Returned f \<Rightarrow> (Returned (), dict_set task k f)
           | Raised x \<Rightarrow> (Raised x, task)
           | Blocked \<Rightarrow> (Blocked, task))
      | _ \<Rightarrow> (Returned (), task))"

definition resolve_action ::
  "('e, 'c) external \<Rightarrow> ('e, 'c) api \<Rightarrow> (string \<times> pyval) list
     \<Rightarrow> unit outcome \<times> (string \<times> pyval) list" where
  "resolve_action ext s task =
     (case map_of task ''action'' of
        None \<Rightarrow> (Returned (), task)
      | Some action \<Rightarrow>
          sbind (resolve_actions ext s (case action of PList vs \<Rightarrow> vs | _ \<Rightarrow> [action]) [] task)
            (\<lambda>actions task'.
               case action of
                 PList vs \<Rightarrow> (Returned (), dict_set task' ''action'' (PList actions))
               | _ \<Rightarrow>
                   (case actions of
                      [] \<Rightarrow> (Raised IndexError, task')
                    | f # fs \<Rightarrow> (Returned (), dict_set task' ''action'' f))))"

definition resolve ::
  "('e, 'c) external \<Rightarrow> ('e, 'c) api \<Rightarrow> (string \<times> pyval) list
     \<Rightarrow> unit outcome \<times> (string \<times> pyval) list" where
  "resolve ext s task =
     sbind (resolve_action ext s task)
       (\<lambda>u task1. sbind (resolve_key ext s ''initialize'' task1)
          (\<lambda>u task2. resolve_key ext s ''finalize'' task2))"

section \<open>A concrete index and cluster\<close>

text \<open>
  To run the gateway on examples, a small index and a small cluster: each records the
  calls it receives and the number of items it holds. Saving to the path
  \<^verbatim>\<open>/readonly\<close> fails. The factory builds a pipeline object for a name and
  rejects anything that is not a name.
\<close>

record store =
  calls :: "string list"
  items :: int

definition called :: "string \<Rightarrow> store \<Rightarrow> store" where
  "called name st = st\<lparr>calls := calls st @ [name]\<rparr>"

definition demo_hits :: pyval where
  "demo_hits = PList [PTuple [PInt 1, PFloat 0.9], PTuple [PInt 2, PFloat 0.5]]"

definition buffered :: "pyval list option \<Rightarrow> int" where
  "buffered d = (case d of None \<Rightarrow> 0 | Some buf \<Rightarrow> int (length buf))"

definition demo :: "(store, store) external" where
  "demo = \<lparr>
     emb_search = (\<lambda>e q n. (Returned demo_hits, called ''search'' e)),
     emb_batchsearch = (\<lambda>e q n. (Returned (PList [demo_hits]), called ''batchsearch'' e)),
     emb_count = (\<lambda>e. (Returned (items e), called ''count'' e)),
     emb_scoring = (\<lambda>e. False),
     emb_score = (\<lambda>e d. (Returned (), called ''score'' e)),
     emb_index = (\<lambda>e d. (Returned (), called ''index'' (e\<lparr>items := buffered d\<rparr>))),
     emb_upsert = (\<lambda>e d. (Returned (), called ''upsert'' (e\<lparr>items := items e + buffered d\<rparr>))),
     emb_save = (\<lambda>e p. (if p = PStr ''/readonly'' then Raised (Failure ''save'') else Returned (),
                        called ''save'' e)),
     emb_delete = (\<lambda>e ids. (Returned ids, called ''delete'' e)),
     emb_similarity = (\<lambda>e q ts. (Returned (PList [PTuple [PInt 0, PFloat 0.5]]), called ''similarity'' e)),
     emb_batchsimilarity =
       (\<lambda>e q ts. (Returned (PList [PList [PTuple [PInt 0, PFloat 0.5]]]), called ''batchsimilarity'' e)),
     emb_transform = (\<lambda>e d. (Returned (PList [PFloat 0.25]), called ''transform'' e)),
     emb_batchtransform = (\<lambda>e d. (Returned (PList [PList [PFloat 0.25]]), called ''batchtransform'' e)),
     cl_search = (\<lambda>c q n. (Returned demo_hits, called ''search'' c)),
     cl_batchsearch = (\<lambda>c q n. (Returned (PList [demo_hits]), called ''batchsearch'' c)),
     cl_add = (\<lambda>c d. (Returned (), called ''add'' c)),
     cl_index = (\<lambda>c. (Returned (), called ''index'' c)),
     cl_upsert = (\<lambda>c. (Returned (), called ''upsert'' c)),
     cl_delete = (\<lambda>c ids. (Returned ids, called ''delete'' c)),
     cl_count = (\<lambda>c. (Returned (items c), called ''count'' c)),
     call = (\<lambda>p args s. (Returned (PList args), s)),
     create = (\<lambda>cfg v. case v of PStr name \<Rightarrow> Returned (PObject name) | _ \<Rightarrow> Raised TypeError),
     float_conv = (\<lambda>v. case v of PInt n \<Rightarrow> Returned (PFloat (of_int n)) | _ \<Rightarrow> Raised TypeError)
   \<rparr>"

definition fresh :: store where
  "fresh = \<lparr>calls = [], items = 0\<rparr>"

text \<open>
  A gateway as \<^verbatim>\<open>__init__\<close> leaves it: no buffer, the lock free, the index and the
  cluster present or not as the configuration says.
\<close>

definition gateway :: "(string \<times> pyval) list \<Rightarrow> store option \<Rightarrow> store option \<Rightarrow> (store, store) api" where
  "gateway cfg e c = \<lparr>
     config = map_of cfg,
     documents = None,
     embeddings = e,
     cluster = c,
     locked = False,
     pipelines = Map.empty,
     workflows = Map.empty
   \<rparr>"

section \<open>The specification's normal forms\<close>




text \<open>
  A document: a structured record keeps its own id, bare text gets the auto-assigned id
  \<open>k\<close>, a partial pair is padded with \<^verbatim>\<open>None\<close>. The auto-assigned id at position
  \<open>k\<close> of a batch is the counter's start plus the number of bare texts before that
  position. A document is well formed when the code can read what it needs from it: a
  record has an \<^verbatim>\<open>id\<close>, a tuple at least two items.
\<close>

fun is_text :: "pyval \<Rightarrow> bool" where
  "is_text (PStr t) = True"
| "is_text v = False"

definition auto_id :: "int \<Rightarrow> pyval list \<Rightarrow> nat \<Rightarrow> int" where
  "auto_id start ds k = start + int (length (filter is_text (take k ds)))"

fun canonical :: "int \<Rightarrow> pyval \<Rightarrow> pyval" where
  "canonical k (PDict kvs) =
     (case map_of kvs ''id'' of Some i \<Rightarrow> PTuple [i, PDict kvs, PNone] | None \<Rightarrow> PDict kvs)"
| "canonical k (PStr t) = PTuple [PInt k, PStr t, PNone]"
| "canonical k (PTuple [a, b]) = PTuple [a, b, PNone]"
| "canonical k d = d"

fun well_formed :: "pyval \<Rightarrow> bool" where
  "well_formed (PDict kvs) = (map_of kvs ''id'' \<noteq> None)"
| "well_formed (PTuple xs) = (2 \<le> length xs)"
| "well_formed d = True"

text \<open>The documents that are buffered: none when there is no buffer.\<close>

definition pending :: "('e, 'c) api \<Rightarrow> pyval list" where
  "pending s = (case documents s of None \<Rightarrow> [] | Some buf \<Rightarrow> buf)"

section \<open>Properties of limit\<close>

lemma limit_range: "limit l = Returned n \<Longrightarrow> 1 \<le> n \<and> n \<le> 250"
  by (cases "if truthy l then py_int l else Returned 10") (auto simp: limit_def split: if_splits)

lemma limit_falsy: "\<not> truthy l \<Longrightarrow> limit l = Returned 10"
  by (simp add: limit_def)

lemma limit_int:
  "limit (PInt k) = Returned (if k = 0 then 10 else if k < 1 then 1 else if 250 < k then 250 else k)"
  by (simp add: limit_def)

text \<open>
  C5 (as the code has it). Whenever \<^verbatim>\<open>limit\<close> returns, its result is an integer in the
  inclusive range 1 to 250. It returns 10 for an absent or falsy argument
  (\<^verbatim>\<open>None\<close>, 0), and on every integer argument it returns: the argument itself when
  it lies in the range, 250 above 250, 1 for a negative one. Not every input makes it
  return: the conversion \<^verbatim>\<open>int(limit)\<close> raises on a non-empty string that is not a
  number.
\<close>

theorem limit_clamped:
  "(\<forall>n. limit l = Returned n \<longrightarrow> 1 \<le> n \<and> n \<le> 250)
   \<and> (\<not> truthy l \<longrightarrow> limit l = Returned 10)
   \<and> limit PNone = Returned 10
   \<and> limit (PInt 0) = Returned 10
   \<and> (1 \<le> k \<and> k \<le> 250 \<longrightarrow> limit (PInt k) = Returned k)
   \<and> (250 < k \<longrightarrow> limit (PInt k) = Returned 250)
   \<and> (k < 0 \<longrightarrow> limit (PInt k) = Returned 1)
   \<and> (\<exists>n. limit (PInt k) = Returned n)"
  using limit_range [of l] limit_falsy [of l] limit_falsy [of PNone] by (simp add: limit_int)

theorem limit_clamped_witness:
  "limit (PInt 5) = Returned 5 \<and> limit (PInt 1000) = Returned 250
   \<and> limit (PInt (- 3)) = Returned 1 \<and> limit (PInt 0) = Returned 10
   \<and> limit PNone = Returned 10"
  using limit_clamped [of PNone 5] limit_clamped [of PNone 1000] limit_clamped [of PNone "- 3"]
  by simp

text \<open>
  The query string \<^verbatim>\<open>limit=abc\<close> reaches \<^verbatim>\<open>limit\<close> as the string \<^verbatim>\<open>"abc"\<close>:
  the call raises instead of returning a number.
\<close>

theorem limit_counterexample: "limit (PStr ''abc'') = Raised ValueError"
  by code_simp

section \<open>Dispatch between cluster and local index\<close>

lemma on_cluster_Some:
  "cluster s = Some c \<Longrightarrow> on_cluster s f = (fst (f c), s\<lparr>cluster := Some (snd (f c))\<rparr>)"
  by (simp add: on_cluster_def split: prod.splits)

lemma on_emb_Some:
  "embeddings s = Some e \<Longrightarrow> on_emb s f = (fst (f e), s\<lparr>embeddings := Some (snd (f e))\<rparr>)"
  by (simp add: on_emb_def split: prod.splits)

lemma sbind_pure: "sbind (r, s) (\<lambda>v s'. (g v, s')) = (obind r g, s)"
  by (cases r) (simp_all add: sbind_def)



lemma add_cluster:
  "cluster s = Some c \<Longrightarrow>
   add ext s docs = (omap (\<lambda>u. docs) (fst (cl_add ext c docs)), s\<lparr>cluster := Some (snd (cl_add ext c docs))\<rparr>)"
  by (simp add: add_def on_cluster_Some)

lemma index_cluster:
  "cluster s = Some c \<Longrightarrow>
   index ext s = (omap (\<lambda>u. PNone) (fst (cl_index ext c)), s\<lparr>cluster := Some (snd (cl_index ext c))\<rparr>)"
  by (simp add: index_def on_cluster_Some)

lemma upsert_cluster:
  "cluster s = Some c \<Longrightarrow>
   upsert ext s = (omap (\<lambda>u. PNone) (fst (cl_upsert ext c)), s\<lparr>cluster := Some (snd (cl_upsert ext c))\<rparr>)"
  by (simp add: upsert_def on_cluster_Some)

lemma delete_cluster:
  "cluster s = Some c \<Longrightarrow>
   delete ext s ids = (fst (cl_delete ext c ids), s\<lparr>cluster := Some (snd (cl_delete ext c ids))\<rparr>)"
  by (simp add: delete_def on_cluster_Some)









lemma batchtransform_local:
  "embeddings s = Some e \<Longrightarrow> py_iter ts = Returned xs \<Longrightarrow>
   batchtransform ext s ts
     = (obind (fst (emb_batchtransform ext e (PList (map (\<lambda>text. PTuple [PNone, text, PNone]) xs))))
          (\<lambda>res. obind (py_iter res) (\<lambda>rs. omap PList (omap_list (float_list ext) rs))),
        s\<lparr>embeddings := Some (snd (emb_batchtransform ext e (PList (map (\<lambda>text. PTuple [PNone, text, PNone]) xs))))\<rparr>)"
  by (simp add: batchtransform_def on_emb_Some sbind_pure)





section \<open>Unknown pipelines and workflows\<close>

lemma py_iter_not_blocked: "py_iter v \<noteq> Blocked"
  by (cases v) simp_all

lemma workflow_missing:
  "workflows s name = None \<Longrightarrow> \<exists>x. workflow ext s name elements = (Raised x, s)"
  using py_iter_not_blocked [of elements]
  by (cases "py_iter elements") (simp_all add: workflow_def)

text \<open>
  C10. \<^verbatim>\<open>workflow(name, elements)\<close> with a name that is not in the workflow registry
  raises, and what it raises for a sequence of elements is the lookup error
  \<^verbatim>\<open>KeyError\<close>; \<^verbatim>\<open>pipeline(name, args)\<close> with a name that is not in the pipeline
  registry returns \<^verbatim>\<open>None\<close>. Neither changes the gateway.
\<close>

theorem workflow_unknown_raises:
  "(workflows s name = None \<longrightarrow>
      (\<exists>x. workflow ext s name elements = (Raised x, s))
      \<and> (\<forall>es. py_iter elements = Returned es \<longrightarrow> workflow ext s name elements = (Raised KeyError, s)))
   \<and> (pipelines s name = None \<longrightarrow> pipeline ext s name args = (Returned PNone, s))"
  using workflow_missing [of s name ext elements]
  by (simp add: workflow_def pipeline_def)

theorem workflow_unknown_raises_witness:
  "workflow demo (gateway [] None None) ''summary'' (PList [PStr ''a''])
     = (Raised KeyError, gateway [] None None)
   \<and> pipeline demo (gateway [] None None) ''summary'' (PList [PStr ''a''])
     = (Returned PNone, gateway [] None None)"
  using workflow_unknown_raises [of "gateway [] None None" "''summary''" demo
      "PList [PStr ''a'']" "PList [PStr ''a'']"]
  by (simp add: gateway_def)

section \<open>Mutations on a gateway that is not writable\<close>

text \<open>
  C3 (as the code has it). On a gateway that is not marked writable and has no cluster,
  every mutating call is a no-op that does not raise: \<^verbatim>\<open>add\<close> returns its input,
  \<^verbatim>\<open>index\<close> and \<^verbatim>\<open>upsert\<close> do nothing, \<^verbatim>\<open>delete\<close> returns \<^verbatim>\<open>None\<close>, and
  the gateway (buffer included) is unchanged. With a cluster configured the writable
  flag is not consulted: each of the four calls is forwarded to the cluster; the local
  buffer is still unchanged.
\<close>

theorem not_writable_noop:
  "(\<not> cfg_truthy s ''writable'' \<and> cluster s = None \<longrightarrow>
      add ext s docs = (Returned docs, s)
      \<and> index ext s = (Returned PNone, s)
      \<and> upsert ext s = (Returned PNone, s)
      \<and> delete ext s ids = (Returned PNone, s))
   \<and> (cluster s = Some c \<longrightarrow>
      add ext s docs
        = (omap (\<lambda>u. docs) (fst (cl_add ext c docs)), s\<lparr>cluster := Some (snd (cl_add ext c docs))\<rparr>)
      \<and> index ext s = (omap (\<lambda>u. PNone) (fst (cl_index ext c)), s\<lparr>cluster := Some (snd (cl_index ext c))\<rparr>)
      \<and> upsert ext s = (omap (\<lambda>u. PNone) (fst (cl_upsert ext c)), s\<lparr>cluster := Some (snd (cl_upsert ext c))\<rparr>)
      \<and> delete ext s ids = (fst (cl_delete ext c ids), s\<lparr>cluster := Some (snd (cl_delete ext c ids))\<rparr>))"
proof (intro conjI impI)
qed (simp_all add: add_cluster index_cluster upsert_cluster delete_cluster,
     simp_all add: add_def index_def upsert_def delete_def)

theorem not_writable_noop_witness:
  "add demo (gateway [(''writable'', PBool False)] (Some fresh) None) (PList [PStr ''a''])
     = (Returned (PList [PStr ''a'']), gateway [(''writable'', PBool False)] (Some fresh) None)
   \<and> index demo (gateway [(''writable'', PBool False)] (Some fresh) None)
     = (Returned PNone, gateway [(''writable'', PBool False)] (Some fresh) None)
   \<and> upsert demo (gateway [(''writable'', PBool False)] (Some fresh) None)
     = (Returned PNone, gateway [(''writable'', PBool False)] (Some fresh) None)
   \<and> delete demo (gateway [(''writable'', PBool False)] (Some fresh) None) (PList [PInt 1])
     = (Returned PNone, gateway [(''writable'', PBool False)] (Some fresh) None)
   \<and> add demo (gateway [] None (Some fresh)) (PList [PStr ''a''])
     = (Returned (PList [PStr ''a'']),
        (gateway [] None (Some fresh))\<lparr>cluster := Some \<lparr>calls = [''add''], items = 0\<rparr>\<rparr>)"
  using not_writable_noop [where s = "gateway [(''writable'', PBool False)] (Some fresh) None"
      and ext = demo and docs = "PList [PStr ''a'']" and ids = "PList [PInt 1]"]
    not_writable_noop [where s = "gateway [] None (Some fresh)" and c = fresh
      and ext = demo and docs = "PList [PStr ''a'']"]
  by (simp add: cfg_truthy_def gateway_def demo_def fresh_def called_def)

text \<open>
  A gateway that is not writable and has a cluster: \<^verbatim>\<open>delete\<close> returns what the
  cluster deleted and \<^verbatim>\<open>index\<close> makes the cluster build its index.
\<close>

theorem not_writable_counterexample:
  "delete demo (gateway [(''writable'', PBool False)] None (Some fresh)) (PList [PInt 1])
     = (Returned (PList [PInt 1]),
        (gateway [(''writable'', PBool False)] None (Some fresh))
          \<lparr>cluster := Some \<lparr>calls = [''delete''], items = 0\<rparr>\<rparr>)
   \<and> index demo (gateway [(''writable'', PBool False)] None (Some fresh))
     = (Returned PNone,
        (gateway [(''writable'', PBool False)] None (Some fresh))
          \<lparr>cluster := Some \<lparr>calls = [''index''], items = 0\<rparr>\<rparr>)"
  by (simp add: delete_def index_def on_cluster_def gateway_def demo_def fresh_def called_def)

section \<open>A failing save inside index and upsert\<close>

lemma index_reaches_save:
  assumes "cluster s = None" and "embeddings s = Some e" and "cfg_truthy s ''writable''"
    and "documents s = Some docs" and "docs \<noteq> []" and "\<not> locked s"
    and "config s ''path'' = Some p" and "truthy p"
    and "(if emb_scoring ext e then emb_score ext e (Some docs) else (Returned (), e)) = (Returned (), e1)"
    and "emb_index ext e1 (Some docs) = (Returned (), e2)"
    and "emb_save ext e2 p = (r, e3)"
  shows "index ext s
     = (omap (\<lambda>u. PNone) r,
        s\<lparr>embeddings := Some e3,
          documents := (if r = Returned () then None else Some docs),
          locked := (r = Blocked)\<rparr>)"
proof (cases r)
  case (Returned u)
  with assms show ?thesis
    by (cases s) (simp add: index_def with_lock_def index_body_def sbind_def on_emb_def
        save_if_path_def reset_documents_def docs_truthy_def split: if_splits)
next
  case (Raised x)
  with assms show ?thesis
    by (cases s) (simp add: index_def with_lock_def index_body_def sbind_def on_emb_def
        save_if_path_def reset_documents_def docs_truthy_def split: if_splits)
next
  case Blocked
  with assms show ?thesis
    by (cases s) (simp add: index_def with_lock_def index_body_def sbind_def on_emb_def
        save_if_path_def reset_documents_def docs_truthy_def split: if_splits)
qed

lemma upsert_reaches_save:
  assumes "cluster s = None" and "embeddings s = Some e" and "cfg_truthy s ''writable''"
    and "documents s = Some docs" and "docs \<noteq> []" and "\<not> locked s"
    and "config s ''path'' = Some p" and "truthy p"
    and "emb_upsert ext e (Some docs) = (Returned (), e2)"
    and "emb_save ext e2 p = (r, e3)"
  shows "upsert ext s
     = (omap (\<lambda>u. PNone) r,
        s\<lparr>embeddings := Some e3,
          documents := (if r = Returned () then None else Some docs),
          locked := (r = Blocked)\<rparr>)"
proof (cases r)
  case (Returned u)
  with assms show ?thesis
    by (cases s) (simp add: upsert_def with_lock_def upsert_body_def sbind_def on_emb_def
        save_if_path_def reset_documents_def docs_truthy_def split: if_splits)
next
  case (Raised x)
  with assms show ?thesis
    by (cases s) (simp add: upsert_def with_lock_def upsert_body_def sbind_def on_emb_def
        save_if_path_def reset_documents_def docs_truthy_def split: if_splits)
next
  case Blocked
  with assms show ?thesis
    by (cases s) (simp add: upsert_def with_lock_def upsert_body_def sbind_def on_emb_def
        save_if_path_def reset_documents_def docs_truthy_def split: if_splits)
qed

text \<open>
  C2. On a writable gateway with a local index, no cluster, a non-empty buffer, the lock
  free and a path configured, let the steps before the save succeed. If the save raises,
  \<^verbatim>\<open>index\<close> (and likewise \<^verbatim>\<open>upsert\<close>) raises the same exception, and the gateway
  is as before but for the state of the index: the buffer holds the same documents and
  the lock is free. The buffer is reset to \<^verbatim>\<open>None\<close> exactly when the save returns.
\<close>

theorem save_failure_keeps_buffer:
  assumes "cluster s = None" and "embeddings s = Some e" and "cfg_truthy s ''writable''"
    and "documents s = Some docs" and "docs \<noteq> []" and "\<not> locked s"
    and "config s ''path'' = Some p" and "truthy p"
    and "(if emb_scoring ext e then emb_score ext e (Some docs) else (Returned (), e)) = (Returned (), e1)"
    and "emb_index ext e1 (Some docs) = (Returned (), e2)"
    and "emb_save ext e2 p = (r, e3)"
    and "emb_upsert ext e (Some docs) = (Returned (), u2)"
    and "emb_save ext u2 p = (r', u3)"
  shows "(\<forall>x. r = Raised x \<longrightarrow> index ext s = (Raised x, s\<lparr>embeddings := Some e3\<rparr>))
         \<and> (\<forall>x. r = Raised x \<longrightarrow>
               documents (snd (index ext s)) = Some docs \<and> \<not> locked (snd (index ext s)))
         \<and> (documents (snd (index ext s)) = None \<longleftrightarrow> r = Returned ())
         \<and> (\<forall>x. r' = Raised x \<longrightarrow> upsert ext s = (Raised x, s\<lparr>embeddings := Some u3\<rparr>))
         \<and> (\<forall>x. r' = Raised x \<longrightarrow>
               documents (snd (upsert ext s)) = Some docs \<and> \<not> locked (snd (upsert ext s)))
         \<and> (documents (snd (upsert ext s)) = None \<longleftrightarrow> r' = Returned ())"
proof -
  have i: "index ext s
     = (omap (\<lambda>u. PNone) r,
        s\<lparr>embeddings := Some e3,
          documents := (if r = Returned () then None else Some docs),
          locked := (r = Blocked)\<rparr>)"
    using assms by (intro index_reaches_save) simp_all
  have u: "upsert ext s
     = (omap (\<lambda>u. PNone) r',
        s\<lparr>embeddings := Some u3,
          documents := (if r' = Returned () then None else Some docs),
          locked := (r' = Blocked)\<rparr>)"
    using assms by (intro upsert_reaches_save) simp_all
  from assms(4,6) show ?thesis
    unfolding i u by (cases s) auto
qed

theorem save_failure_keeps_buffer_witness:
  "index demo
     ((gateway [(''writable'', PBool True), (''path'', PStr ''/readonly'')] (Some fresh) None)
        \<lparr>documents := Some [PTuple [PInt 0, PStr ''a'', PNone]]\<rparr>)
     = (Raised (Failure ''save''),
        (gateway [(''writable'', PBool True), (''path'', PStr ''/readonly'')] (Some fresh) None)
          \<lparr>documents := Some [PTuple [PInt 0, PStr ''a'', PNone]],
           embeddings := Some \<lparr>calls = [''index'', ''save''], items = 1\<rparr>\<rparr>)
   \<and> upsert demo
     ((gateway [(''writable'', PBool True), (''path'', PStr ''/readonly'')] (Some fresh) None)
        \<lparr>documents := Some [PTuple [PInt 0, PStr ''a'', PNone]]\<rparr>)
     = (Raised (Failure ''save''),
        (gateway [(''writable'', PBool True), (''path'', PStr ''/readonly'')] (Some fresh) None)
          \<lparr>documents := Some [PTuple [PInt 0, PStr ''a'', PNone]],
           embeddings := Some \<lparr>calls = [''upsert'', ''save''], items = 1\<rparr>\<rparr>)"
  using save_failure_keeps_buffer [where ext = demo and e = fresh and p = "PStr ''/readonly''"
      and docs = "[PTuple [PInt 0, PStr ''a'', PNone]]"
      and s = "(gateway [(''writable'', PBool True), (''path'', PStr ''/readonly'')] (Some fresh) None)
        \<lparr>documents := Some [PTuple [PInt 0, PStr ''a'', PNone]]\<rparr>"
      and ?e1.0 = fresh
      and ?e2.0 = "\<lparr>calls = [''index''], items = 1\<rparr>"
      and ?e3.0 = "\<lparr>calls = [''index'', ''save''], items = 1\<rparr>"
      and ?u2.0 = "\<lparr>calls = [''upsert''], items = 1\<rparr>"
      and ?u3.0 = "\<lparr>calls = [''upsert'', ''save''], items = 1\<rparr>"
      and r = "Raised (Failure ''save'')" and r' = "Raised (Failure ''save'')"]
  by (simp add: cfg_truthy_def gateway_def demo_def fresh_def called_def buffered_def)

section \<open>Normalisation of search results\<close>








section \<open>Buffering documents\<close>

lemma auto_id_Cons:
  "auto_id start (d # ds) (Suc k) = auto_id (if is_text d then start + 1 else start) ds k"
  by (simp add: auto_id_def)

lemma auto_id_0: "auto_id start ds 0 = start"
  by (simp add: auto_id_def)

lemma map_positions_Cons:
  "map f [0..<length (d # ds)] = f 0 # map (\<lambda>k. f (Suc k)) [0..<length ds]"
  by (simp add: map_upt_Suc del: upt_Suc)

lemma canonical_long: "rest \<noteq> [] \<Longrightarrow> canonical k (PTuple (a # b # rest)) = PTuple (a # b # rest)"
  by (cases rest) simp_all

lemma add_loop_result:
  "add_loop start acc ds = Returned batch \<Longrightarrow>
   batch = acc @ map (\<lambda>k. canonical (auto_id start ds k) (ds ! k)) [0..<length ds]"
proof (induction start acc ds arbitrary: batch rule: add_loop.induct)
  case (1 index batch)
  then show ?case by simp
next
  case (2 index batch kvs ds)
  then show ?case
    by (simp only: map_positions_Cons) (auto simp: auto_id_Cons auto_id_0 split: option.splits)
next
  case (3 index batch t ds)
  then show ?case
    by (simp only: map_positions_Cons) (auto simp: auto_id_Cons auto_id_0)
next
  case (4 index batch xs ds)
  then show ?case
    by (simp only: map_positions_Cons)
       (auto simp: auto_id_Cons auto_id_0 canonical_long split: list.splits if_splits)
qed (simp_all only: map_positions_Cons, auto simp: auto_id_Cons auto_id_0)


lemma add_loop_returns:
  "\<forall>d \<in> set ds. well_formed d \<Longrightarrow> \<exists>batch. add_loop start acc ds = Returned batch"
proof (induction start acc ds rule: add_loop.induct)
  case (4 index batch xs ds)
  then show ?case by (auto split: list.splits)
qed auto

lemma auto_id_bounds:
  "start \<le> auto_id start ds k \<and> auto_id start ds k \<le> start + int (length ds)"
proof -
  have "length (filter is_text (take k ds)) \<le> length (take k ds)"
    by (rule length_filter_le)
  also have "\<dots> \<le> length ds"
    by simp
  finally show ?thesis
    by (simp add: auto_id_def)
qed

lemma auto_id_increasing:
  assumes "k < k'" and "k < length ds" and "is_text (ds ! k)"
  shows "auto_id start ds k < auto_id start ds k'"
proof -
  have "take (Suc k) ds = take k ds @ [ds ! k]"
    using assms(2) by (simp add: take_Suc_conv_app_nth)
  then have a: "length (filter is_text (take (Suc k) ds)) = Suc (length (filter is_text (take k ds)))"
    using assms(3) by simp
  have "take k' ds = take (Suc k) ds @ drop (Suc k) (take k' ds)"
    using assms(1) by (metis Suc_leI append_take_drop_id min.absorb1 take_take)
  then have "length (filter is_text (take (Suc k) ds)) \<le> length (filter is_text (take k' ds))"
    by (metis filter_append le_add1 length_append)
  with a show ?thesis by (simp add: auto_id_def)
qed


lemma auto_id_le_position: "auto_id start ds k \<le> start + int k"
proof -
  have "length (filter is_text (take k ds)) \<le> length (take k ds)"
    by (rule length_filter_le)
  also have "\<dots> \<le> k"
    by simp
  finally show ?thesis
    by (simp add: auto_id_def)
qed

lemma add_local:
  assumes "cluster s = None" and "embeddings s = Some e" and "cfg_truthy s ''writable''"
    and "\<not> locked s" and "emb_count ext e = (Returned n, e')" and "py_iter docs = Returned ds"
    and "add_loop (n + int (length (pending s))) [] ds = Returned batch"
  shows "add ext s docs
     = (Returned docs, s\<lparr>embeddings := Some e', documents := Some (pending s @ batch)\<rparr>)"
proof (cases "documents s")
  case None
  with assms show ?thesis
    by (cases s) (simp add: add_def with_lock_def add_body_def count_def on_emb_def sbind_def
        docs_truthy_def pending_def)
next
  case (Some buf)
  with assms show ?thesis
    by (cases s; cases "buf = []") (simp_all add: add_def with_lock_def add_body_def count_def on_emb_def sbind_def
        docs_truthy_def pending_def)
qed

text \<open>
  C4 (as the code has it). \<^verbatim>\<open>add\<close> on a writable gateway with a local index, no
  cluster and the lock free, for a sequence of well-formed documents: it returns its
  input, and the buffer afterwards is the buffer before followed by one entry for each
  input document, in order, each the canonical form of its document: a structured
  record keeps the id the caller supplied, a partial pair is padded with \<^verbatim>\<open>None\<close>,
  bare text gets the auto-assigned id. The counter starts at the index's count plus the
  number of buffered documents and advances once per bare text, so the auto-assigned ids
  of a call are strictly increasing and lie from that start up to, but not including,
  the start plus the size of the batch. Nothing compares an auto-assigned id with the
  ids that callers supplied.
\<close>

theorem add_buffers_canonical:
  assumes "cluster s = None" and "embeddings s = Some e" and "cfg_truthy s ''writable''"
    and "\<not> locked s" and "emb_count ext e = (Returned n, e')" and "py_iter docs = Returned ds"
    and "\<forall>d \<in> set ds. well_formed d"
  shows "add ext s docs
           = (Returned docs,
              s\<lparr>embeddings := Some e',
                documents := Some (pending s @
                  map (\<lambda>k. canonical (auto_id (n + int (length (pending s))) ds k) (ds ! k))
                    [0..<length ds])\<rparr>)
         \<and> (\<forall>k < length ds.
               n + int (length (pending s)) \<le> auto_id (n + int (length (pending s))) ds k
               \<and> auto_id (n + int (length (pending s))) ds k
                   < n + int (length (pending s)) + int (length ds))
         \<and> (\<forall>k k'. k < k' \<and> k' < length ds \<and> is_text (ds ! k) \<longrightarrow>
               auto_id (n + int (length (pending s))) ds k
                 < auto_id (n + int (length (pending s))) ds k')"
proof -
  obtain batch where b: "add_loop (n + int (length (pending s))) [] ds = Returned batch"
    using add_loop_returns [OF assms(7)] by blast
  have "batch = map (\<lambda>k. canonical (auto_id (n + int (length (pending s))) ds k) (ds ! k)) [0..<length ds]"
    using add_loop_result [OF b] by simp
  with add_local [OF assms(1-6) b] have 1: "add ext s docs
           = (Returned docs,
              s\<lparr>embeddings := Some e',
                documents := Some (pending s @
                  map (\<lambda>k. canonical (auto_id (n + int (length (pending s))) ds k) (ds ! k))
                    [0..<length ds])\<rparr>)"
    by simp
  have 2: "\<forall>k < length ds.
               n + int (length (pending s)) \<le> auto_id (n + int (length (pending s))) ds k
               \<and> auto_id (n + int (length (pending s))) ds k
                   < n + int (length (pending s)) + int (length ds)"
  proof (intro allI impI)
    fix k assume "k < length ds"
    then show "n + int (length (pending s)) \<le> auto_id (n + int (length (pending s))) ds k
               \<and> auto_id (n + int (length (pending s))) ds k
                   < n + int (length (pending s)) + int (length ds)"
      using auto_id_bounds [of "n + int (length (pending s))" ds k]
        auto_id_le_position [of "n + int (length (pending s))" ds k] by simp
  qed
  have 3: "\<forall>k k'. k < k' \<and> k' < length ds \<and> is_text (ds ! k) \<longrightarrow>
               auto_id (n + int (length (pending s))) ds k
                 < auto_id (n + int (length (pending s))) ds k'"
    using auto_id_increasing by (metis order.strict_trans)
  from 1 2 3 show ?thesis by blast
qed

theorem add_buffers_canonical_witness:
  "add demo (gateway [(''writable'', PBool True)] (Some fresh) None)
       (PList [PStr ''a'', PDict [(''id'', PStr ''x''), (''text'', PStr ''b'')],
               PTuple [PInt 7, PStr ''c''], PStr ''d''])
     = (Returned (PList [PStr ''a'', PDict [(''id'', PStr ''x''), (''text'', PStr ''b'')],
               PTuple [PInt 7, PStr ''c''], PStr ''d'']),
        (gateway [(''writable'', PBool True)] (Some fresh) None)
          \<lparr>embeddings := Some \<lparr>calls = [''count''], items = 0\<rparr>,
           documents := Some [PTuple [PInt 0, PStr ''a'', PNone],
                              PTuple [PStr ''x'', PDict [(''id'', PStr ''x''), (''text'', PStr ''b'')], PNone],
                              PTuple [PInt 7, PStr ''c'', PNone],
                              PTuple [PInt 1, PStr ''d'', PNone]]\<rparr>)"
  using add_buffers_canonical [where ext = demo and e = fresh and n = 0
      and s = "gateway [(''writable'', PBool True)] (Some fresh) None"
      and e' = "\<lparr>calls = [''count''], items = 0\<rparr>"
      and docs = "PList [PStr ''a'', PDict [(''id'', PStr ''x''), (''text'', PStr ''b'')],
               PTuple [PInt 7, PStr ''c''], PStr ''d'']"
      and ds = "[PStr ''a'', PDict [(''id'', PStr ''x''), (''text'', PStr ''b'')],
               PTuple [PInt 7, PStr ''c''], PStr ''d'']"]
  by (simp add: cfg_truthy_def gateway_def demo_def fresh_def called_def pending_def auto_id_def)

text \<open>
  On an empty index, a record with the caller's id 1 is buffered; the bare text added
  next gets the auto-assigned id 0 + 1: two buffered documents have the id 1.
\<close>

theorem add_counterexample:
  "add demo (gateway [(''writable'', PBool True)] (Some fresh) None)
       (PList [PDict [(''id'', PInt 1), (''text'', PStr ''a'')]])
     = (Returned (PList [PDict [(''id'', PInt 1), (''text'', PStr ''a'')]]),
        (gateway [(''writable'', PBool True)] (Some fresh) None)
          \<lparr>embeddings := Some \<lparr>calls = [''count''], items = 0\<rparr>,
           documents := Some [PTuple [PInt 1, PDict [(''id'', PInt 1), (''text'', PStr ''a'')], PNone]]\<rparr>)
   \<and> add demo
       ((gateway [(''writable'', PBool True)] (Some fresh) None)
          \<lparr>embeddings := Some \<lparr>calls = [''count''], items = 0\<rparr>,
           documents := Some [PTuple [PInt 1, PDict [(''id'', PInt 1), (''text'', PStr ''a'')], PNone]]\<rparr>)
       (PList [PStr ''b''])
     = (Returned (PList [PStr ''b'']),
        (gateway [(''writable'', PBool True)] (Some fresh) None)
          \<lparr>embeddings := Some \<lparr>calls = [''count'', ''count''], items = 0\<rparr>,
           documents := Some [PTuple [PInt 1, PDict [(''id'', PInt 1), (''text'', PStr ''a'')], PNone],
                              PTuple [PInt 1, PStr ''b'', PNone]]\<rparr>)"
  by (simp add: add_def with_lock_def add_body_def count_def on_emb_def sbind_def docs_truthy_def
      cfg_truthy_def gateway_def demo_def fresh_def called_def)

section \<open>Resolution of tasks\<close>

lemma map_of_dict_set: "map_of (dict_set t k v) k' = (if k' = k then Some v else map_of t k')"
  by (induction t) auto

lemma api_function_name:
  "api_function ext s (PStr a) = (case pipelines s a of Some p \<Rightarrow> Returned p | None \<Rightarrow> create ext [] (PStr a))"
  by (simp add: api_function_def)

lemma resolve_key_others:
  "k' \<noteq> k \<Longrightarrow> map_of (snd (resolve_key ext s k t)) k' = map_of t k'"
  by (simp add: resolve_key_def map_of_dict_set split: option.splits pyval.splits outcome.splits)

lemma resolve_key_nonstr:
  "\<forall>n. map_of t k \<noteq> Some (PStr n) \<Longrightarrow> resolve_key ext s k t = (Returned (), t)"
  by (simp add: resolve_key_def split: option.splits pyval.splits)

lemma resolve_key_result:
  "resolve_key ext s k t = (Returned (), t') \<Longrightarrow>
   \<forall>name v. api_function ext s (PStr name) = Returned v \<longrightarrow> \<not> is_text v \<Longrightarrow>
   \<forall>n. map_of t' k \<noteq> Some (PStr n)"
  by (auto simp: resolve_key_def map_of_dict_set split: option.splits pyval.splits outcome.splits)
     (metis is_text.simps(1))

lemma resolve_keeps:
  "k \<noteq> ''initialize'' \<Longrightarrow> k \<noteq> ''finalize'' \<Longrightarrow>
   map_of (snd (resolve ext s task)) k = map_of (snd (resolve_action ext s task)) k"
proof -
  assume k: "k \<noteq> ''initialize''" "k \<noteq> ''finalize''"
  obtain r t1 where a: "resolve_action ext s task = (r, t1)" by fastforce
  obtain r2 t2 where b: "resolve_key ext s ''initialize'' t1 = (r2, t2)" by fastforce
  have t2: "map_of t2 k = map_of t1 k"
    using resolve_key_others [of k "''initialize''" ext s t1] k b by simp
  have t3: "map_of (snd (resolve_key ext s ''finalize'' t2)) k = map_of t2 k"
    using resolve_key_others [of k "''finalize''" ext s t2] k by simp
  show ?thesis
    using a b t2 t3 by (cases r; cases r2) (simp_all add: resolve_def sbind_def)
qed

lemma resolve_finalize_kept:
  assumes "resolve_action ext s task = (Returned (), t1)"
    and "map_of t1 ''finalize'' = Some v" and "\<forall>n. v \<noteq> PStr n"
  shows "map_of (snd (resolve ext s task)) ''finalize'' = Some v"
proof -
  obtain r2 t2 where b: "resolve_key ext s ''initialize'' t1 = (r2, t2)" by fastforce
  have t2: "map_of t2 ''finalize'' = Some v"
    using resolve_key_others [of "''finalize''" "''initialize''" ext s t1] b assms(2) by simp
  then have "resolve_key ext s ''finalize'' t2 = (Returned (), t2)"
    using assms(3) by (intro resolve_key_nonstr) simp
  then show ?thesis
    using assms(1) b t2 by (cases r2) (simp_all add: resolve_def sbind_def)
qed

lemma resolve_action_index:
  assumes "map_of task ''action'' = Some (PStr a)" and "a = ''index'' \<or> a = ''upsert''"
  shows "resolve_action ext s task
     = (Returned (),
        dict_set (dict_set (dict_set task ''unpack'' (PBool False)) ''finalize''
          (PMethod (if a = ''upsert'' then MUpsert else MIndex))) ''action'' (PMethod MAdd))"
  using assms by (auto simp: resolve_action_def sbind_def)

lemma resolve_action_other:
  assumes "map_of task ''action'' = Some (PStr a)" and "a \<noteq> ''index''" and "a \<noteq> ''upsert''"
    and "api_function ext s (PStr a) = Returned f"
  shows "resolve_action ext s task = (Returned (), dict_set task ''action'' f)"
  using assms by (simp add: resolve_action_def sbind_def)

lemma resolve_returns:
  assumes "resolve_action ext s task = (Returned (), t1)"
    and "\<forall>n. map_of t1 ''initialize'' \<noteq> Some (PStr n)"
    and "\<forall>n. map_of t1 ''finalize'' \<noteq> Some (PStr n)"
  shows "resolve ext s task = (Returned (), t1)"
  using assms by (simp add: resolve_def sbind_def resolve_key_nonstr)

text \<open>
  C6. Resolving a task whose action is the name \<^verbatim>\<open>index\<close> or \<^verbatim>\<open>upsert\<close>
  leaves the task with the gateway's \<^verbatim>\<open>add\<close> method as its action, with
  \<^verbatim>\<open>unpack\<close> false, and with the gateway's method of the same name as the action
  (\<^verbatim>\<open>upsert\<close> for \<^verbatim>\<open>upsert\<close>, \<^verbatim>\<open>index\<close> for \<^verbatim>\<open>index\<close>) as its
  \<^verbatim>\<open>finalize\<close>, whatever the resolution of its initializer does. Any other action
  name is looked up in the pipeline registry by its exact name, and when the registry
  does not have it the pipeline factory builds a pipeline by that name from an empty
  configuration; the result becomes the task's action and \<^verbatim>\<open>unpack\<close> is left as it
  was.
\<close>

theorem resolve_index_upsert:
  "(map_of task ''action'' = Some (PStr a) \<and> (a = ''index'' \<or> a = ''upsert'') \<longrightarrow>
      map_of (snd (resolve ext s task)) ''action'' = Some (PMethod MAdd)
      \<and> map_of (snd (resolve ext s task)) ''unpack'' = Some (PBool False)
      \<and> map_of (snd (resolve ext s task)) ''finalize''
          = Some (PMethod (if a = ''upsert'' then MUpsert else MIndex))
      \<and> (map_of task ''initialize'' = None \<longrightarrow> fst (resolve ext s task) = Returned ()))
   \<and> api_function ext s (PStr a)
       = (case pipelines s a of Some p \<Rightarrow> Returned p | None \<Rightarrow> create ext [] (PStr a))
   \<and> (map_of task ''action'' = Some (PStr a) \<and> a \<noteq> ''index'' \<and> a \<noteq> ''upsert''
      \<and> api_function ext s (PStr a) = Returned f \<longrightarrow>
        map_of (snd (resolve ext s task)) ''action'' = Some f
        \<and> map_of (snd (resolve ext s task)) ''unpack'' = map_of task ''unpack'')"
proof (intro conjI impI)
  assume h: "map_of task ''action'' = Some (PStr a) \<and> (a = ''index'' \<or> a = ''upsert'')"
  let ?t1 = "dict_set (dict_set (dict_set task ''unpack'' (PBool False)) ''finalize''
          (PMethod (if a = ''upsert'' then MUpsert else MIndex))) ''action'' (PMethod MAdd)"
  have ra: "resolve_action ext s task = (Returned (), ?t1)"
    using h by (intro resolve_action_index) simp_all
  show "map_of (snd (resolve ext s task)) ''action'' = Some (PMethod MAdd)"
    by (simp add: resolve_keeps ra map_of_dict_set)
  show "map_of (snd (resolve ext s task)) ''unpack'' = Some (PBool False)"
    by (simp add: resolve_keeps ra map_of_dict_set)
  show "map_of (snd (resolve ext s task)) ''finalize''
          = Some (PMethod (if a = ''upsert'' then MUpsert else MIndex))"
    by (rule resolve_finalize_kept [OF ra]) (simp_all add: map_of_dict_set)
  show "fst (resolve ext s task) = Returned ()" if "map_of task ''initialize'' = None"
    using that by (simp add: resolve_returns [OF ra] map_of_dict_set)
next
  show "api_function ext s (PStr a)
       = (case pipelines s a of Some p \<Rightarrow> Returned p | None \<Rightarrow> create ext [] (PStr a))"
    by (rule api_function_name)
next
  assume h: "map_of task ''action'' = Some (PStr a) \<and> a \<noteq> ''index'' \<and> a \<noteq> ''upsert''
      \<and> api_function ext s (PStr a) = Returned f"
  have ra: "resolve_action ext s task = (Returned (), dict_set task ''action'' f)"
    using h resolve_action_other [of task a ext s f] by blast
  show "map_of (snd (resolve ext s task)) ''action'' = Some f"
    by (simp add: resolve_keeps ra map_of_dict_set)
  show "map_of (snd (resolve ext s task)) ''unpack'' = map_of task ''unpack''"
    by (simp add: resolve_keeps ra map_of_dict_set)
qed

theorem resolve_index_upsert_witness:
  "map_of (snd (resolve demo (gateway [] None None) [(''action'', PStr ''index'')])) ''action''
     = Some (PMethod MAdd)
   \<and> map_of (snd (resolve demo (gateway [] None None) [(''action'', PStr ''index'')])) ''unpack''
     = Some (PBool False)
   \<and> map_of (snd (resolve demo (gateway [] None None) [(''action'', PStr ''index'')])) ''finalize''
     = Some (PMethod MIndex)
   \<and> map_of (snd (resolve demo (gateway [] None None) [(''action'', PStr ''upsert'')])) ''finalize''
     = Some (PMethod MUpsert)
   \<and> fst (resolve demo (gateway [] None None) [(''action'', PStr ''index'')]) = Returned ()
   \<and> map_of (snd (resolve demo (gateway [] None None) [(''action'', PStr ''summary'')])) ''action''
     = Some (PObject ''summary'')"
  using resolve_index_upsert [where ext = demo and s = "gateway [] None None"
      and task = "[(''action'', PStr ''index'')]" and a = "''index''"]
    resolve_index_upsert [where ext = demo and s = "gateway [] None None"
      and task = "[(''action'', PStr ''upsert'')]" and a = "''upsert''"]
    resolve_index_upsert [where ext = demo and s = "gateway [] None None"
      and task = "[(''action'', PStr ''summary'')]" and a = "''summary''" and f = "PObject ''summary''"]
  by (simp add: api_function_def gateway_def demo_def)

lemma resolve_no_action:
  "map_of task ''action'' = None \<Longrightarrow> resolve_action ext s task = (Returned (), task)"
  by (simp add: resolve_action_def)

lemma resolve_action_callable:
  "map_of task ''action'' = Some (PMethod m) \<Longrightarrow>
   resolve_action ext s task
     = (case create ext [] (PMethod m) of
          Returned f \<Rightarrow> (Returned (), dict_set task ''action'' f)
        | Raised x \<Rightarrow> (Raised x, task)
        | Blocked \<Rightarrow> (Blocked, task))"
  by (simp add: resolve_action_def sbind_def api_function_def split: outcome.splits)

lemma resolve_twice_no_action:
  assumes "map_of task ''action'' = None"
    and "resolve ext s task = (Returned (), task')"
    and ns: "\<forall>name v. api_function ext s (PStr name) = Returned v \<longrightarrow> \<not> is_text v"
  shows "resolve ext s task' = (Returned (), task')"
proof -
  obtain r2 t2 where b: "resolve_key ext s ''initialize'' task = (r2, t2)" by fastforce
  from assms(1,2) b have r2: "r2 = Returned ()" and c: "resolve_key ext s ''finalize'' t2 = (Returned (), task')"
    by (cases r2; simp add: resolve_def sbind_def resolve_no_action)+
  have i2: "\<forall>n. map_of t2 ''initialize'' \<noteq> Some (PStr n)"
    using resolve_key_result [OF b [unfolded r2] ns] .
  have a2: "map_of t2 ''action'' = None"
    using resolve_key_others [of "''action''" "''initialize''" ext s task] b assms(1) by simp
  have f3: "\<forall>n. map_of task' ''finalize'' \<noteq> Some (PStr n)"
    using resolve_key_result [OF c ns] .
  have i3: "\<forall>n. map_of task' ''initialize'' \<noteq> Some (PStr n)"
    using resolve_key_others [of "''initialize''" "''finalize''" ext s t2] c i2 by simp
  have a3: "map_of task' ''action'' = None"
    using resolve_key_others [of "''action''" "''finalize''" ext s t2] c a2 by simp
  show ?thesis
    using a3 i3 f3 by (simp add: resolve_returns resolve_no_action)
qed

text \<open>
  C8 (as the code has it). Only the entries \<^verbatim>\<open>initialize\<close> and \<^verbatim>\<open>finalize\<close> are
  tested for being strings: an entry that is not a string passes through untouched. So
  on a task without an action, when registry and factory yield objects and not strings,
  a second \<^verbatim>\<open>resolve\<close> of a resolved task returns and leaves the task unchanged. The
  action is resolved whatever its type: an action that is already a method of the
  gateway is handed to the pipeline factory, and the task gets what the factory answers.
\<close>

theorem resolve_idempotent_without_action:
  "(map_of task ''action'' = None \<and> resolve ext s task = (Returned (), task')
      \<and> (\<forall>name v. api_function ext s (PStr name) = Returned v \<longrightarrow> \<not> is_text v)
    \<longrightarrow> resolve ext s task' = (Returned (), task'))
   \<and> (map_of task ''action'' = None
      \<and> (\<forall>n. map_of task ''initialize'' \<noteq> Some (PStr n))
      \<and> (\<forall>n. map_of task ''finalize'' \<noteq> Some (PStr n))
    \<longrightarrow> resolve ext s task = (Returned (), task))
   \<and> (map_of task ''action'' = Some (PMethod m)
    \<longrightarrow> resolve_action ext s task
          = (case create ext [] (PMethod m) of
               Returned f \<Rightarrow> (Returned (), dict_set task ''action'' f)
             | Raised x \<Rightarrow> (Raised x, task)
             | Blocked \<Rightarrow> (Blocked, task)))"
proof (intro conjI impI)
  assume "map_of task ''action'' = None \<and> resolve ext s task = (Returned (), task')
      \<and> (\<forall>name v. api_function ext s (PStr name) = Returned v \<longrightarrow> \<not> is_text v)"
  then show "resolve ext s task' = (Returned (), task')"
    using resolve_twice_no_action [of task ext s task'] by blast
next
  assume "map_of task ''action'' = None
      \<and> (\<forall>n. map_of task ''initialize'' \<noteq> Some (PStr n))
      \<and> (\<forall>n. map_of task ''finalize'' \<noteq> Some (PStr n))"
  then show "resolve ext s task = (Returned (), task)"
    by (simp add: resolve_returns resolve_no_action)
next
  assume "map_of task ''action'' = Some (PMethod m)"
  then show "resolve_action ext s task
          = (case create ext [] (PMethod m) of
               Returned f \<Rightarrow> (Returned (), dict_set task ''action'' f)
             | Raised x \<Rightarrow> (Raised x, task)
             | Blocked \<Rightarrow> (Blocked, task))"
    by (rule resolve_action_callable)
qed

theorem resolve_idempotent_without_action_witness:
  "resolve demo (gateway [] None None) [(''initialize'', PStr ''summary'')]
     = (Returned (), [(''initialize'', PObject ''summary'')])
   \<and> resolve demo (gateway [] None None) [(''initialize'', PObject ''summary'')]
     = (Returned (), [(''initialize'', PObject ''summary'')])
   \<and> resolve_action demo (gateway [] None None) [(''action'', PMethod MAdd)]
     = (Raised TypeError, [(''action'', PMethod MAdd)])"
  using resolve_idempotent_without_action [where ext = demo and s = "gateway [] None None"
      and task = "[(''initialize'', PStr ''summary'')]"
      and task' = "[(''initialize'', PObject ''summary'')]"]
    resolve_idempotent_without_action [where ext = demo and s = "gateway [] None None"
      and task = "[(''action'', PMethod MAdd)]" and m = MAdd]
  by (simp add: resolve_def resolve_action_def resolve_key_def sbind_def api_function_def
      gateway_def demo_def)

text \<open>
  The task with the action \<^verbatim>\<open>index\<close>, resolved twice: the second call hands the
  gateway's \<^verbatim>\<open>add\<close> method to the pipeline factory, which takes names only, and
  raises.
\<close>

theorem resolve_counterexample:
  "resolve demo (gateway [] None None) [(''action'', PStr ''index'')]
     = (Returned (),
        [(''action'', PMethod MAdd), (''unpack'', PBool False), (''finalize'', PMethod MIndex)])
   \<and> resolve demo (gateway [] None None)
        [(''action'', PMethod MAdd), (''unpack'', PBool False), (''finalize'', PMethod MIndex)]
     = (Raised TypeError,
        [(''action'', PMethod MAdd), (''unpack'', PBool False), (''finalize'', PMethod MIndex)])"
  by (simp add: resolve_def resolve_action_def resolve_key_def sbind_def api_function_def
      gateway_def demo_def)

end
